theory Spec2Isabelle
  imports Complex_Main
begin

section \<open>Values, exceptions and files\<close>

text \<open>
  The anime recommender is a thin layer over pandas and LangChain. The embedding keeps
  the repository's own code explicit and takes from the libraries only what the code
  relies on. A field of a CSV line, as pandas types it, is a missing value (\<open>NaN\<close>: an
  empty or NA field), a Python \<open>str\<close>, or a number (a field of a numeric column; it
  is not a \<open>str\<close>).
\<close>

type_synonym path = string

datatype cell = NaN | Str string | Num int

text \<open>
  An exception message is kept as its parts, because the loader formats a Python
  \<open>set\<close> into its message and the order in which a set prints is not fixed.
\<close>

datatype msg_part = Lit string | SetRepr "string set"

type_synonym message = "msg_part list"

datatype exc_class =
    ValueError | TypeError | KeyError | FileNotFoundError | UnicodeDecodeError
  | EmptyDataError | OSError | RuntimeError | KeyboardInterrupt | SystemExit

text \<open>
  Modelled from the spec: \<open>utils/custom_exception.py\<close> is not among the sources. The
  spec describes \<open>CustomException\<close> as a domain-specific error type carrying the
  original failure; it is built from a message and the caught exception.
\<close>

datatype exn = Raised exc_class message | CustomException message exn

text \<open>
  \<open>isinstance(e, Exception)\<close>: of the classes above only \<open>KeyboardInterrupt\<close> and
  \<open>SystemExit\<close> derive from \<open>BaseException\<close> directly.
\<close>

fun is_Exception :: "exn \<Rightarrow> bool" where
  "is_Exception (Raised KeyboardInterrupt m) = False"
| "is_Exception (Raised SystemExit m) = False"
| "is_Exception e = True"

fun str_exn :: "exn \<Rightarrow> message" where
  "str_exn (Raised c m) = m"
| "str_exn (CustomException m e) = m"

text \<open>
  A CSV file as the pandas tokenizer sees it: the column names of the header line and
  the data lines in file order, each the list of its fields (blank lines are not
  lines). The file system answers a read of a path with the exception \<open>pd.read_csv\<close>
  raises there (no such file, not UTF-8, no columns) or with the file.
\<close>

record csv_file =
  header :: "string list"
  lines :: "cell list list"
  encoding :: string

type_synonym filesystem = "path \<Rightarrow> exn + csv_file"

section \<open>The pandas operations the loader calls\<close>

text \<open>
  A data frame: the column names and the rows, each with its index label (the cells of
  the index columns, or the row's position for the default index) and its cells.
\<close>

record data_frame =
  columns :: "string list"
  rows :: "(cell list \<times> cell list) list"

text \<open>
  \<open>pd.read_csv(path, encoding='utf-8', on_bad_lines='skip')\<close>. The number of fields
  the tokenizer expects is that of the header, or that of the first data line when it
  has more: the first data line is never skipped, and its extra leading fields become
  an implicit index. A later line with more fields than expected is a bad line and is
  skipped; a line with fewer is filled with \<open>NaN\<close> at its end. Of each kept line the
  leading fields are the index label and the rest are the cells of the columns.
\<close>

definition width :: "string list \<Rightarrow> cell list list \<Rightarrow> nat" where
  "width hdr ls = (case ls of [] \<Rightarrow> length hdr | l # rest \<Rightarrow> max (length hdr) (length l))"

definition pad :: "nat \<Rightarrow> cell list \<Rightarrow> cell list" where
  "pad w l = l @ replicate (w - length l) NaN"

definition read_csv :: "filesystem \<Rightarrow> path \<Rightarrow> exn + data_frame" where
  "read_csv fs p =
     (case fs p of
        Inl e \<Rightarrow> Inl e
      | Inr f \<Rightarrow>
          (let w = width (header f) (lines f);
               k = w - length (header f);
               kept = map (pad w) (filter (\<lambda>l. length l \<le> w) (lines f))
           in Inr \<lparr>columns = header f,
                   rows = map (\<lambda>(i, r). (if k = 0 then [Num (int i)] else take k r, drop k r))
                            (zip [0..<length kept] kept)\<rparr>))"

definition dropna :: "data_frame \<Rightarrow> data_frame" where
  "dropna df = df\<lparr>rows := filter (\<lambda>(l, cs). NaN \<notin> set cs) (rows df)\<rparr>"

fun index_of :: "'a \<Rightarrow> 'a list \<Rightarrow> nat option" where
  "index_of c [] = None"
| "index_of c (x # xs) =
     (if x = c then Some 0 else map_option Suc (index_of c xs))"

definition cell_at :: "cell list \<Rightarrow> nat \<Rightarrow> cell" where
  "cell_at cs i = (if i < length cs then cs ! i else NaN)"

text \<open>\<open>df[c]\<close>: the column as a series (the cells in row order), \<open>KeyError\<close> if absent.\<close>

definition getitem :: "data_frame \<Rightarrow> string \<Rightarrow> exn + cell list" where
  "getitem df c =
     (case index_of c (columns df) of
        None \<Rightarrow> Inl (Raised KeyError [Lit c])
      | Some i \<Rightarrow> Inr (map (\<lambda>(l, cs). cell_at cs i) (rows df)))"

text \<open>
  \<open>+\<close> on two cells: \<open>str + str\<close> concatenates, a missing operand gives a missing
  result, numbers add, and a \<open>str\<close> with a number is a \<open>TypeError\<close> (the text of the
  library's message is not modelled).
\<close>

fun py_add :: "cell \<Rightarrow> cell \<Rightarrow> exn + cell" where
  "py_add (Str a) (Str b) = Inr (Str (a @ b))"
| "py_add NaN y = Inr NaN"
| "py_add x NaN = Inr NaN"
| "py_add (Num a) (Num b) = Inr (Num (a + b))"
| "py_add x y = Inl (Raised TypeError [])"

fun traverse :: "('a \<Rightarrow> exn + 'b) \<Rightarrow> 'a list \<Rightarrow> exn + 'b list" where
  "traverse f [] = Inr []"
| "traverse f (x # xs) =
     (case f x of
        Inl e \<Rightarrow> Inl e
      | Inr y \<Rightarrow> (case traverse f xs of Inl e \<Rightarrow> Inl e | Inr ys \<Rightarrow> Inr (y # ys)))"

text \<open>
  \<open>s + series\<close>, \<open>series + s\<close> and \<open>series + series\<close> (both on the frame's index),
  cell by cell. pandas resolves the operation from the dtype of the column, so on a
  numeric column it can raise even when no row is left; here the cells present decide.
\<close>

definition str_add_series :: "string \<Rightarrow> cell list \<Rightarrow> exn + cell list" where
  "str_add_series s xs = traverse (\<lambda>x. py_add (Str s) x) xs"

definition series_add_str :: "cell list \<Rightarrow> string \<Rightarrow> exn + cell list" where
  "series_add_str xs s = traverse (\<lambda>x. py_add x (Str s)) xs"

definition series_add_series :: "cell list \<Rightarrow> cell list \<Rightarrow> exn + cell list" where
  "series_add_series xs ys = traverse (\<lambda>(x, y). py_add x y) (zip xs ys)"

text \<open>\<open>df[c] = series\<close>: replaces the column \<open>c\<close> in place, or appends it as the last one.\<close>

definition setitem :: "data_frame \<Rightarrow> string \<Rightarrow> cell list \<Rightarrow> data_frame" where
  "setitem df c vs =
     (case index_of c (columns df) of
        None \<Rightarrow>
          \<lparr>columns = columns df @ [c],
           rows = map (\<lambda>((l, cs), v). (l, cs @ [v])) (zip (rows df) vs)\<rparr>
      | Some i \<Rightarrow>
          \<lparr>columns = columns df,
           rows = map (\<lambda>((l, cs), v). (l, cs[i := v])) (zip (rows df) vs)\<rparr>)"

text \<open>\<open>df[[c1, ..]]\<close>: the frame of the listed columns.\<close>

definition select :: "data_frame \<Rightarrow> string list \<Rightarrow> exn + data_frame" where
  "select df cols =
     (case traverse (\<lambda>c. case index_of c (columns df) of
                            None \<Rightarrow> Inl (Raised KeyError [Lit c])
                          | Some i \<Rightarrow> Inr i) cols of
        Inl e \<Rightarrow> Inl e
      | Inr idxs \<Rightarrow>
          Inr \<lparr>columns = cols,
               rows = map (\<lambda>(l, cs). (l, map (cell_at cs) idxs)) (rows df)\<rparr>)"

text \<open>
  \<open>df.to_csv(path, index=.., encoding=..)\<close>: the header and one line per row; with
  \<open>index=True\<close> the index label is written first, under unnamed columns.
\<close>

definition to_csv :: "data_frame \<Rightarrow> bool \<Rightarrow> string \<Rightarrow> csv_file" where
  "to_csv df idx enc =
     \<lparr>header =
        (if idx then
           replicate (case rows df of [] \<Rightarrow> 1 | r # rest \<Rightarrow> length (fst r)) [] @ columns df
         else columns df),
      lines = map (\<lambda>(l, cs). if idx then l @ cs else cs) (rows df),
      encoding = enc\<rparr>"

section \<open>The data loader (\<open>src/data_loader.py\<close>)\<close>

record anime_data_loader =
  original_csv :: path
  processed_csv :: path

definition AnimeDataLoader :: "path \<Rightarrow> path \<Rightarrow> anime_data_loader" where
  "AnimeDataLoader orig processed = \<lparr>original_csv = orig, processed_csv = processed\<rparr>"

definition required_columns :: "string set" where
  "required_columns = {''Name'', ''Genres'', ''sypnopsis''}"

definition bind_exn :: "exn + 'a \<Rightarrow> ('a \<Rightarrow> exn + 'b) \<Rightarrow> exn + 'b" where
  "bind_exn r k = (case r of Inl e \<Rightarrow> Inl e | Inr x \<Rightarrow> k x)"

text \<open>
  The right-hand side of the assignment to \<open>df['combined_info']\<close>, evaluated from the
  left as Python does, one series operation at a time.
\<close>

definition combined_info :: "data_frame \<Rightarrow> exn + cell list" where
  "combined_info df =
     bind_exn (getitem df ''Name'') (\<lambda>name.
     bind_exn (str_add_series ''Title: '' name) (\<lambda>s1.
     bind_exn (series_add_str s1 ''..Overview: '') (\<lambda>s2.
     bind_exn (getitem df ''sypnopsis'') (\<lambda>syn.
     bind_exn (series_add_series s2 syn) (\<lambda>s3.
     bind_exn (series_add_str s3 ''Genres : '') (\<lambda>s4.
     bind_exn (getitem df ''Genres'') (\<lambda>genres.
     series_add_series s4 genres)))))))"

definition load_and_process ::
  "anime_data_loader \<Rightarrow> filesystem \<Rightarrow> (exn + path) \<times> filesystem" where
  "load_and_process self fs =
     (case read_csv fs (original_csv self) of
        Inl e \<Rightarrow> (Inl e, fs)
      | Inr df0 \<Rightarrow>
          (let df = dropna df0;
               missing = required_columns - set (columns df)
           in if missing \<noteq> {} then
                (Inl (Raised ValueError
                        [Lit ''Missing columns '', SetRepr missing, Lit '' in CSV file'']), fs)
              else
                (case combined_info df of
                   Inl e \<Rightarrow> (Inl e, fs)
                 | Inr vs \<Rightarrow>
                     (case select (setitem df ''combined_info'' vs) [''combined_info''] of
                        Inl e \<Rightarrow> (Inl e, fs)
                      | Inr out \<Rightarrow>
                          (Inr (processed_csv self),
                           fs(processed_csv self := Inr (to_csv out False ''utf-8'')))))))"


subsection \<open>Vocabulary of the specification\<close>

text \<open>
  The vocabulary of the specification, over the input file: a line is skipped as
  malformed; the row of a kept line (its cells in the columns, after filling); a line
  contains a null when its row does; a line survives into the output; the named field
  of a line.
\<close>

definition is_bad :: "csv_file \<Rightarrow> cell list \<Rightarrow> bool" where
  "is_bad f l = (width (header f) (lines f) < length l)"

definition row_of :: "csv_file \<Rightarrow> cell list \<Rightarrow> cell list" where
  "row_of f l =
     drop (width (header f) (lines f) - length (header f)) (pad (width (header f) (lines f)) l)"

definition has_null :: "csv_file \<Rightarrow> cell list \<Rightarrow> bool" where
  "has_null f l = (NaN \<in> set (row_of f l))"

definition survives :: "csv_file \<Rightarrow> cell list \<Rightarrow> bool" where
  "survives f l = (\<not> is_bad f l \<and> \<not> has_null f l)"

definition field :: "csv_file \<Rightarrow> cell list \<Rightarrow> string \<Rightarrow> cell" where
  "field f l c =
     (case index_of c (header f) of
        None \<Rightarrow> NaN
      | Some i \<Rightarrow> cell_at (row_of f l) i)"

fun text_of :: "cell \<Rightarrow> string" where
  "text_of (Str s) = s"
| "text_of c = []"

text \<open>The processed record of the specification: \<open>Title: {Name}..Overview: {sypnopsis}Genres : {Genres}\<close>.\<close>

definition derived :: "csv_file \<Rightarrow> cell list \<Rightarrow> string" where
  "derived f l =
     ''Title: '' @ text_of (field f l ''Name'') @ ''..Overview: ''
       @ text_of (field f l ''sypnopsis'') @ ''Genres : '' @ text_of (field f l ''Genres'')"

section \<open>The recommender (\<open>src/recommender.py\<close>)\<close>

record document =
  page_content :: string

record ai_message =
  content :: string

record chat_groq =
  model :: string
  api_key :: string
  temperature :: real

text \<open>
  The constructor of \<open>langchain_groq.ChatGroq\<close>: its validator replaces a temperature of
  \<open>0\<close> by \<open>1e-8\<close>, and that is what the object holds and sends with every request.
\<close>

definition ChatGroq :: "string \<Rightarrow> string \<Rightarrow> real \<Rightarrow> chat_groq" where
  "ChatGroq m k t = \<lparr>model = m, api_key = k, temperature = (if t = 0 then 1 / 10 ^ 8 else t)\<rparr>"

text \<open>
  The collaborators are parameters. A prompt template is its \<open>format\<close> method, from
  the keyword arguments to the text; a retriever is its \<open>invoke\<close> method; the hosted
  model answers a configuration and a prompt, and its answer may depend on the
  sampling randomness of the call (the \<open>nat\<close>). Each may raise.
\<close>

type_synonym prompt_template = "(string \<times> string) list \<Rightarrow> exn + string"

type_synonym retriever = "string \<Rightarrow> exn + document list"

type_synonym provider = "chat_groq \<Rightarrow> nat \<Rightarrow> string \<Rightarrow> exn + ai_message"

record anime_recommender =
  llm :: chat_groq
  prompt :: prompt_template
  retriever :: retriever
  chain :: "chat_groq \<times> prompt_template"

text \<open>
  \<open>__init__\<close>. \<open>get_anime_prompt\<close> lives in \<open>src/prompt_template.py\<close>, which is not among
  the sources: the template it returns is the first argument.
\<close>

definition AnimeRecommender ::
  "prompt_template \<Rightarrow> retriever \<Rightarrow> string \<Rightarrow> string \<Rightarrow> anime_recommender" where
  "AnimeRecommender get_anime_prompt retr key model_name =
     (let l = ChatGroq model_name key 0;
          p = get_anime_prompt
      in \<lparr>llm = l, prompt = p, retriever = retr, chain = (l, p)\<rparr>)"

text \<open>Python's \<open>sep.join(xs)\<close>.\<close>

fun join :: "string \<Rightarrow> string list \<Rightarrow> string" where
  "join sep [] = []"
| "join sep [x] = x"
| "join sep (x # y # ys) = x @ sep @ join sep (y # ys)"

definition newline :: string where
  "newline = [CHR 0x0A]"

text \<open>The calls a run makes on its collaborators, in order.\<close>

datatype event =
    RetrieverInvoke string
  | PromptFormat "(string \<times> string) list"
  | LLMInvoke chat_groq string

fun is_llm_invoke :: "event \<Rightarrow> bool" where
  "is_llm_invoke (LLMInvoke c p) = True"
| "is_llm_invoke e = False"

definition get_recommendations ::
  "provider \<Rightarrow> anime_recommender \<Rightarrow> string \<Rightarrow> nat \<Rightarrow> (exn + string) \<times> event list" where
  "get_recommendations groq self query seed =
     (case retriever self query of
        Inl e \<Rightarrow> (Inl e, [RetrieverInvoke query])
      | Inr retrieved_docs \<Rightarrow>
          (let context = join newline (map page_content retrieved_docs);
               kwargs = [(''context'', context), (''question'', query)]
           in case prompt self kwargs of
                Inl e \<Rightarrow> (Inl e, [RetrieverInvoke query, PromptFormat kwargs])
              | Inr prompt_input \<Rightarrow>
                  (case groq (llm self) seed prompt_input of
                     Inl e \<Rightarrow>
                       (Inl e, [RetrieverInvoke query, PromptFormat kwargs,
                                LLMInvoke (llm self) prompt_input])
                   | Inr result \<Rightarrow>
                       (Inr (content result),
                        [RetrieverInvoke query, PromptFormat kwargs,
                         LLMInvoke (llm self) prompt_input]))))"


section \<open>The pipeline driver (\<open>pipeline/build_pipleline.py\<close>)\<close>

text \<open>
  \<open>VectorStoreBuilder(csv_path=..).build_and_save_vectorstore()\<close> is in
  \<open>src/vector_store.py\<close>, not among the sources: it is a parameter that reads the
  processed CSV and persists an index, or raises. The log is the list of messages
  passed to \<open>logger.info\<close>.
\<close>

type_synonym vector_store_builder = "path \<Rightarrow> filesystem \<Rightarrow> (exn + unit) \<times> filesystem"

text \<open>The body of the \<open>try\<close> block.\<close>

definition main_try ::
  "path \<Rightarrow> vector_store_builder \<Rightarrow> filesystem \<Rightarrow> message list
     \<Rightarrow> (exn + unit) \<times> filesystem \<times> message list" where
  "main_try project_root build fs entries =
     (let log1 = entries @ [[Lit ''Starting to build pipeline'']];
          csv_path = project_root @ ''/data/anime_with_synopsis.csv'';
          processed_csv_path = project_root @ ''/data/anime_updated.csv'';
          loader = AnimeDataLoader csv_path processed_csv_path
      in case load_and_process loader fs of
           (Inl e, fs1) \<Rightarrow> (Inl e, fs1, log1)
         | (Inr processed, fs1) \<Rightarrow>
             (let log2 = log1 @ [[Lit ''Data loaded and processed successfully'']]
              in case build processed fs1 of
                   (Inl e, fs2) \<Rightarrow> (Inl e, fs2, log2)
                 | (Inr u, fs2) \<Rightarrow>
                     (Inr (), fs2,
                      log2 @ [[Lit ''Vector store built successfully...''],
                              [Lit ''Pipeline built successfully'']])))"

text \<open>\<open>main\<close>: the \<open>try\<close> block under its handler \<open>except Exception as e\<close>.\<close>

definition main ::
  "path \<Rightarrow> vector_store_builder \<Rightarrow> filesystem \<Rightarrow> message list
     \<Rightarrow> (exn + unit) \<times> filesystem \<times> message list" where
  "main project_root build fs entries =
     (case main_try project_root build fs entries of
        (Inl e, fs', entries') \<Rightarrow>
          (if is_Exception e then
             (Inl (CustomException [Lit ''Error during pipeline initialization''] e), fs',
              entries' @ [Lit ''failed to execute pipeline '' # str_exn e])
           else (Inl e, fs', entries'))
      | (Inr u, fs', entries') \<Rightarrow> (Inr u, fs', entries'))"


section \<open>Concrete inputs\<close>

definition no_files :: filesystem where
  "no_files = (\<lambda>p. Inl (Raised FileNotFoundError []))"

definition naruto_csv :: csv_file where
  "naruto_csv =
     \<lparr>header = [''Name'', ''Genres'', ''sypnopsis''],
      lines = [[Str ''Naruto'', Str ''Action, Adventure'', Str ''A ninja's journey.'']],
      encoding = ''utf-8''\<rparr>"

text \<open>
  A file with a fourth column, a row with a null, a line with a field too many and a
  short line.
\<close>

definition mixed_csv :: csv_file where
  "mixed_csv =
     \<lparr>header = [''Name'', ''Score'', ''Genres'', ''sypnopsis''],
      lines = [[Str ''Naruto'', Num 8, Str ''Action'', Str ''A ninja.''],
               [Str ''Bleach'', NaN, Str ''Action'', Str ''A reaper.''],
               [Str ''Monster'', Num 9, Str ''Drama'', Str ''A doctor'', Str ''x''],
               [Str ''Mushishi'', Num 9, Str ''Mystery''],
               [Str ''Trigun'', Num 8, Str ''Western'', Str ''A gunman.'']],
      encoding = ''utf-8''\<rparr>"

text \<open>A file without nulls whose second data line has one field too many.\<close>

definition skipped_csv :: csv_file where
  "skipped_csv =
     \<lparr>header = [''Name'', ''Genres'', ''sypnopsis''],
      lines = [[Str ''Naruto'', Str ''Action'', Str ''A ninja.''],
               [Str ''Monster'', Str ''Drama'', Str ''A doctor'', Str ''x'']],
      encoding = ''utf-8''\<rparr>"

text \<open>
  A file whose first data line has one field more than the header: its first field
  becomes the index, and the second line, one field short of that, is filled.
\<close>

definition shifted_csv :: csv_file where
  "shifted_csv =
     \<lparr>header = [''Name'', ''Genres'', ''sypnopsis''],
      lines = [[Str ''Monster'', Str ''Drama'', Str ''A doctor'', Str ''x''],
               [Str ''Naruto'', Str ''Action'', Str ''A ninja.'']],
      encoding = ''utf-8''\<rparr>"

text \<open>A file whose data lines all have one field more than the header.\<close>

definition indexed_csv :: csv_file where
  "indexed_csv =
     \<lparr>header = [''Name'', ''Genres'', ''sypnopsis''],
      lines = [[Num 1, Str ''Monster'', Str ''Drama'', Str ''A doctor.''],
               [Num 2, Str ''Naruto'', Str ''Action'', Str ''A ninja.'']],
      encoding = ''utf-8''\<rparr>"

definition partial_csv :: csv_file where
  "partial_csv =
     \<lparr>header = [''Name'', ''Score''],
      lines = [[Str ''Naruto'', Num 8]],
      encoding = ''utf-8''\<rparr>"

definition two_docs :: retriever where
  "two_docs = (\<lambda>q. Inr [\<lparr>page_content = ''doc A''\<rparr>, \<lparr>page_content = ''doc B''\<rparr>])"

definition other_docs :: retriever where
  "other_docs = (\<lambda>q. Inr [\<lparr>page_content = ''doc A'' @ newline @ ''doc B''\<rparr>])"

definition plain_prompt :: prompt_template where
  "plain_prompt kwargs =
     (case (map_of kwargs ''context'', map_of kwargs ''question'') of
        (Some c, Some q) \<Rightarrow> Inr (''Context: '' @ c @ '' Question: '' @ q)
      | _ \<Rightarrow> Inl (Raised KeyError []))"

text \<open>
  Two providers that echo the prompt: the first adds noise above the temperature
  \<open>1e-8\<close>, the second at every temperature but \<open>0\<close>.
\<close>

definition echo_groq :: provider where
  "echo_groq cfg seed p =
     Inr \<lparr>content = (if temperature cfg \<le> 1 / 10 ^ 8 then p
                      else p @ replicate seed (CHR ''!''))\<rparr>"

definition strict_groq :: provider where
  "strict_groq cfg seed p =
     Inr \<lparr>content = (if temperature cfg = 0 then p else p @ replicate seed (CHR ''!''))\<rparr>"

definition exiting_build :: vector_store_builder where
  "exiting_build p fs = (Inl (Raised SystemExit [Lit ''1'']), fs)"

definition interrupted_build :: vector_store_builder where
  "interrupted_build p fs = (Inl (Raised KeyboardInterrupt []), fs)"

definition failing_build :: vector_store_builder where
  "failing_build p fs = (Inl (Raised RuntimeError [Lit ''index build failed'']), fs)"

section \<open>Lemmas about the loader\<close>

lemma traverse_Inr_iff:
  "traverse f xs = Inr ys \<longleftrightarrow> list_all2 (\<lambda>x y. f x = Inr y) xs ys"
proof (induction xs arbitrary: ys)
  case Nil
  show ?case by auto
next
  case (Cons x xs)
  show ?case
    by (cases ys) (auto simp: Cons.IH [symmetric] split: sum.splits)
qed

lemma index_of_None: "index_of c xs = None \<longleftrightarrow> c \<notin> set xs"
  by (induction xs) auto

lemma index_of_Some: "index_of c xs = Some i \<Longrightarrow> i < length xs \<and> xs ! i = c"
  by (induction xs arbitrary: i) (auto split: if_splits)

lemma index_of_append_new: "c \<notin> set xs \<Longrightarrow> index_of c (xs @ [c]) = Some (length xs)"
  by (induction xs) auto

lemma width_ge_header: "length hdr \<le> width hdr ls"
  by (simp add: width_def split: list.splits)

lemma length_row_of:
  "\<not> is_bad f l \<Longrightarrow> length (row_of f l) = length (header f)"
  using width_ge_header [of "header f" "lines f"]
  by (simp add: is_bad_def row_of_def pad_def)

lemma map_snd_labelled:
  "length xs = length ys \<Longrightarrow>
   map snd (map (\<lambda>(i, r). (g i r, h r)) (zip xs ys)) = map h ys"
  by (induction xs ys rule: list_induct2) auto

lemma map_snd_filter_snd:
  "map snd (filter (\<lambda>(l, cs). P cs) rs) = filter P (map snd rs)"
  by (induction rs) auto

lemma read_csv_rows:
  assumes "fs p = Inr f" and "read_csv fs p = Inr df0"
  shows "map snd (rows df0) = map (row_of f) (filter (\<lambda>l. \<not> is_bad f l) (lines f))"
    and "columns df0 = header f"
proof -
  let ?w = "width (header f) (lines f)"
  let ?kept = "map (pad ?w) (filter (\<lambda>l. length l \<le> ?w) (lines f))"
  have bad: "(\<lambda>l. \<not> is_bad f l) = (\<lambda>l. length l \<le> ?w)"
    by (auto simp: is_bad_def fun_eq_iff)
  from assms have r: "rows df0 =
      map (\<lambda>(i, r). (if ?w - length (header f) = 0 then [Num (int i)]
                         else take (?w - length (header f)) r,
                       drop (?w - length (header f)) r))
        (zip [0..<length ?kept] ?kept)"
    by (auto simp: read_csv_def Let_def)
  have "map snd (rows df0) = map (drop (?w - length (header f))) ?kept"
    unfolding r by (rule map_snd_labelled) simp
  also have "\<dots> = map (row_of f) (filter (\<lambda>l. \<not> is_bad f l) (lines f))"
    by (simp add: bad row_of_def comp_def)
  finally show "map snd (rows df0) = map (row_of f) (filter (\<lambda>l. \<not> is_bad f l) (lines f))" .
  show "columns df0 = header f"
    using assms by (auto simp: read_csv_def Let_def)
qed

lemma dropna_read_rows:
  assumes "fs p = Inr f" and "read_csv fs p = Inr df0"
  shows "map snd (rows (dropna df0)) = map (row_of f) (filter (survives f) (lines f))"
    and "columns (dropna df0) = header f"
    and "\<forall>r \<in> set (rows (dropna df0)). length (snd r) = length (header f) \<and> NaN \<notin> set (snd r)"
proof -
  note rd = read_csv_rows [where fs = fs and p = p and f = f, OF assms]
  have s: "survives f = (\<lambda>l. \<not> is_bad f l \<and> NaN \<notin> set (row_of f l))"
    by (simp add: fun_eq_iff survives_def has_null_def)
  have "map snd (rows (dropna df0)) = filter (\<lambda>cs. NaN \<notin> set cs) (map snd (rows df0))"
    by (simp add: dropna_def map_snd_filter_snd)
  also have "\<dots> = map (row_of f) (filter (survives f) (lines f))"
    by (simp add: rd(1) filter_map comp_def s)
  finally show 1: "map snd (rows (dropna df0)) = map (row_of f) (filter (survives f) (lines f))" .
  show "columns (dropna df0) = header f"
    by (simp add: dropna_def rd(2))
  show "\<forall>r \<in> set (rows (dropna df0)). length (snd r) = length (header f) \<and> NaN \<notin> set (snd r)"
  proof
    fix r assume "r \<in> set (rows (dropna df0))"
    then have "snd r \<in> set (map snd (rows (dropna df0)))" by simp
    then obtain l where "l \<in> set (lines f)" "survives f l" "snd r = row_of f l"
      unfolding 1 by auto
    then show "length (snd r) = length (header f) \<and> NaN \<notin> set (snd r)"
      by (simp add: s length_row_of)
  qed
qed

lemma combine_cells:
  assumes "a \<noteq> NaN" "b \<noteq> NaN" "c \<noteq> NaN"
    and "py_add (Str t) a = Inr y1" "py_add y1 (Str u) = Inr y2" "py_add y2 b = Inr y3"
    and "py_add y3 (Str w) = Inr y4" "py_add y4 c = Inr y5"
  shows "\<exists>n s g. a = Str n \<and> b = Str s \<and> c = Str g \<and> y5 = Str (t @ n @ u @ s @ w @ g)"
  using assms by (cases a; cases b; cases c) auto

lemma combined_info_Inr:
  assumes ok: "combined_info df = Inr vs"
    and iN: "index_of ''Name'' (columns df) = Some iN"
    and iS: "index_of ''sypnopsis'' (columns df) = Some iS"
    and iG: "index_of ''Genres'' (columns df) = Some iG"
    and clean: "\<forall>r \<in> set (rows df). NaN \<notin> set (snd r) \<and> iN < length (snd r)
                  \<and> iS < length (snd r) \<and> iG < length (snd r)"
  shows "list_all2 (\<lambda>cs v. \<exists>n s g. cell_at cs iN = Str n \<and> cell_at cs iS = Str s
            \<and> cell_at cs iG = Str g
            \<and> v = Str (''Title: '' @ n @ ''..Overview: '' @ s @ ''Genres : '' @ g))
          (map snd (rows df)) vs"
proof -
  let ?N = "map (\<lambda>(l, cs). cell_at cs iN) (rows df)"
  let ?S = "map (\<lambda>(l, cs). cell_at cs iS) (rows df)"
  let ?G = "map (\<lambda>(l, cs). cell_at cs iG) (rows df)"
  from ok obtain s1 s2 s3 s4 where
    1: "str_add_series ''Title: '' ?N = Inr s1" and
    2: "series_add_str s1 ''..Overview: '' = Inr s2" and
    3: "series_add_series s2 ?S = Inr s3" and
    4: "series_add_str s3 ''Genres : '' = Inr s4" and
    5: "series_add_series s4 ?G = Inr vs"
    by (auto simp: combined_info_def bind_exn_def getitem_def iN iS iG split: sum.splits)
  let ?m = "length (rows df)"
  from 1 have l1: "length s1 = ?m"
    and p1: "\<And>k. k < ?m \<Longrightarrow> py_add (Str ''Title: '') (?N ! k) = Inr (s1 ! k)"
    by (auto simp: str_add_series_def traverse_Inr_iff list_all2_conv_all_nth)
  from 2 l1 have l2: "length s2 = ?m"
    and p2: "\<And>k. k < ?m \<Longrightarrow> py_add (s1 ! k) (Str ''..Overview: '') = Inr (s2 ! k)"
    by (auto simp: series_add_str_def traverse_Inr_iff list_all2_conv_all_nth)
  from 3 l2 have l3: "length s3 = ?m"
    and p3: "\<And>k. k < ?m \<Longrightarrow> py_add (s2 ! k) (?S ! k) = Inr (s3 ! k)"
    by (auto simp: series_add_series_def traverse_Inr_iff list_all2_conv_all_nth)
  from 4 l3 have l4: "length s4 = ?m"
    and p4: "\<And>k. k < ?m \<Longrightarrow> py_add (s3 ! k) (Str ''Genres : '') = Inr (s4 ! k)"
    by (auto simp: series_add_str_def traverse_Inr_iff list_all2_conv_all_nth)
  from 5 l4 have l5: "length vs = ?m"
    and p5: "\<And>k. k < ?m \<Longrightarrow> py_add (s4 ! k) (?G ! k) = Inr (vs ! k)"
    by (auto simp: series_add_series_def traverse_Inr_iff list_all2_conv_all_nth)
  have "\<exists>n s g. cell_at (snd (rows df ! k)) iN = Str n \<and> cell_at (snd (rows df ! k)) iS = Str s
            \<and> cell_at (snd (rows df ! k)) iG = Str g
            \<and> vs ! k = Str (''Title: '' @ n @ ''..Overview: '' @ s @ ''Genres : '' @ g)"
    if k: "k < ?m" for k
  proof -
    let ?cs = "snd (rows df ! k)"
    from k have mem: "rows df ! k \<in> set (rows df)" by simp
    with clean have c: "NaN \<notin> set ?cs" "iN < length ?cs" "iS < length ?cs" "iG < length ?cs"
      by blast+
    have nn: "cell_at ?cs iN \<noteq> NaN" "cell_at ?cs iS \<noteq> NaN" "cell_at ?cs iG \<noteq> NaN"
      using c by (auto simp: cell_at_def dest: nth_mem)
    have e: "?N ! k = cell_at ?cs iN" "?S ! k = cell_at ?cs iS" "?G ! k = cell_at ?cs iG"
      using k by (simp_all add: case_prod_unfold)
    show ?thesis
      using combine_cells [OF nn(1) nn(2) nn(3) p1 [OF k, unfolded e] p2 [OF k]
          p3 [OF k, unfolded e] p4 [OF k] p5 [OF k, unfolded e]]
      by simp
  qed
  then show ?thesis
    using l5 by (simp add: list_all2_conv_all_nth)
qed


lemma select_setitem:
  assumes len: "\<forall>r \<in> set (rows df). length (snd r) = length (columns df)"
  shows "select (setitem df c vs) [c] =
         Inr \<lparr>columns = [c], rows = map (\<lambda>((l, cs), v). (l, [v])) (zip (rows df) vs)\<rparr>"
proof (cases "index_of c (columns df)")
  case None
  then have "c \<notin> set (columns df)" by (simp add: index_of_None)
  then have i: "index_of c (columns df @ [c]) = Some (length (columns df))"
    by (rule index_of_append_new)
  have "cell_at (snd (fst x) @ [snd x]) (length (columns df)) = snd x"
    if "x \<in> set (zip (rows df) vs)" for x
  proof -
    from that have "fst x \<in> set (rows df)"
      using set_zip_leftD [of "fst x" "snd x" "rows df" vs] by simp
    with len have "length (snd (fst x)) = length (columns df)" by blast
    then show ?thesis by (simp add: cell_at_def nth_append)
  qed
  then show ?thesis
    using None i by (auto simp: select_def setitem_def case_prod_unfold)
next
  case (Some i)
  then have il: "i < length (columns df)" by (auto dest: index_of_Some)
  have "cell_at ((snd (fst x))[i := snd x]) i = snd x"
    if "x \<in> set (zip (rows df) vs)" for x
  proof -
    from that have "fst x \<in> set (rows df)"
      using set_zip_leftD [of "fst x" "snd x" "rows df" vs] by simp
    with len il have "i < length (snd (fst x))" by auto
    then show ?thesis by (simp add: cell_at_def)
  qed
  then show ?thesis
    using Some by (auto simp: select_def setitem_def case_prod_unfold)
qed

lemma to_csv_single:
  assumes "length vs = length rs"
  shows "to_csv \<lparr>columns = [c], rows = map (\<lambda>((l, cs), v). (l, [v])) (zip rs vs)\<rparr> False enc =
         \<lparr>header = [c], lines = map (\<lambda>v. [v]) vs, encoding = enc\<rparr>"
proof -
  have "map (\<lambda>x. [snd x]) (zip rs vs) = map (\<lambda>v. [v]) vs"
    using assms by (induction vs rs rule: list_induct2) auto
  then show ?thesis
    by (simp add: to_csv_def case_prod_unfold comp_def)
qed



lemma load_and_process_success:
  assumes rd: "fs (original_csv self) = Inr f"
    and ok: "load_and_process self fs = (Inr p, fs')"
  shows "p = processed_csv self \<and> required_columns \<subseteq> set (header f) \<and>
         (\<exists>vs. fs' = fs(p := Inr \<lparr>header = [''combined_info''],
                               lines = map (\<lambda>v. [v]) vs, encoding = ''utf-8''\<rparr>)
           \<and> list_all2 (\<lambda>l v. \<exists>n g s. field f l ''Name'' = Str n
                  \<and> field f l ''Genres'' = Str g \<and> field f l ''sypnopsis'' = Str s
                  \<and> v = Str (''Title: '' @ n @ ''..Overview: '' @ s @ ''Genres : '' @ g))
                (filter (survives f) (lines f)) vs)"
proof -
  obtain df0 where df0: "read_csv fs (original_csv self) = Inr df0"
    using rd by (simp add: read_csv_def Let_def)
  let ?df = "dropna df0"
  let ?H = "header f"
  note fr = dropna_read_rows [OF rd df0]
  from ok df0 have sub: "required_columns \<subseteq> set ?H"
    by (auto simp: load_and_process_def Let_def fr(2) split: if_splits)
  then obtain iN iS iG where
    iN: "index_of ''Name'' ?H = Some iN" and
    iS: "index_of ''sypnopsis'' ?H = Some iS" and
    iG: "index_of ''Genres'' ?H = Some iG"
    using index_of_None [of "''Name''" ?H] index_of_None [of "''sypnopsis''" ?H]
      index_of_None [of "''Genres''" ?H]
    by (auto simp: required_columns_def)
  from sub have nomiss: "required_columns - set (columns ?df) = {}"
    by (simp add: fr(2))
  from ok df0 nomiss obtain vs out where
    vs: "combined_info ?df = Inr vs" and
    out: "select (setitem ?df ''combined_info'' vs) [''combined_info''] = Inr out" and
    p: "p = processed_csv self" and
    fs': "fs' = fs(processed_csv self := Inr (to_csv out False ''utf-8''))"
    by (auto simp: load_and_process_def Let_def split: sum.splits)
  have clean: "\<forall>r \<in> set (rows ?df). NaN \<notin> set (snd r) \<and> iN < length (snd r)
                  \<and> iS < length (snd r) \<and> iG < length (snd r)"
    using fr(3) index_of_Some [OF iN] index_of_Some [OF iS] index_of_Some [OF iG] by auto
  have all: "list_all2 (\<lambda>cs v. \<exists>n s g. cell_at cs iN = Str n \<and> cell_at cs iS = Str s
            \<and> cell_at cs iG = Str g
            \<and> v = Str (''Title: '' @ n @ ''..Overview: '' @ s @ ''Genres : '' @ g))
          (map snd (rows ?df)) vs"
    by (rule combined_info_Inr [OF vs _ _ _ clean]) (simp_all add: fr(2) iN iS iG)
  then have lvs: "length vs = length (rows ?df)"
    by (auto dest: list_all2_lengthD)
  have len: "\<forall>r \<in> set (rows ?df). length (snd r) = length (columns ?df)"
    using fr(3) by (simp add: fr(2))
  have "out = \<lparr>columns = [''combined_info''],
               rows = map (\<lambda>((l, cs), v). (l, [v])) (zip (rows ?df) vs)\<rparr>"
    using out select_setitem [OF len, of "''combined_info''" vs] by simp
  then have w: "to_csv out False ''utf-8'' =
      \<lparr>header = [''combined_info''], lines = map (\<lambda>v. [v]) vs, encoding = ''utf-8''\<rparr>"
    using to_csv_single [OF lvs] by simp
  have "list_all2 (\<lambda>l v. \<exists>n g s. field f l ''Name'' = Str n
                  \<and> field f l ''Genres'' = Str g \<and> field f l ''sypnopsis'' = Str s
                  \<and> v = Str (''Title: '' @ n @ ''..Overview: '' @ s @ ''Genres : '' @ g))
          (filter (survives f) (lines f)) vs"
    using all unfolding fr(1)
    by (auto simp: list_all2_conv_all_nth field_def iN iS iG)
  with p fs' w sub show ?thesis by auto
qed

lemma load_and_process_reads:
  "load_and_process self fs = (Inr p, fs') \<Longrightarrow> \<exists>f. fs (original_csv self) = Inr f"
  by (cases "fs (original_csv self)") (auto simp: load_and_process_def read_csv_def)

lemma load_and_process_failure:
  "load_and_process self fs = (Inl e, fs') \<Longrightarrow> fs' = fs"
  by (auto simp: load_and_process_def Let_def split: sum.splits if_splits)

lemma load_and_process_missing:
  assumes rd: "fs (original_csv self) = Inr f"
    and miss: "\<not> required_columns \<subseteq> set (header f)"
  shows "load_and_process self fs =
         (Inl (Raised ValueError [Lit ''Missing columns '',
                 SetRepr (required_columns - set (header f)), Lit '' in CSV file'']), fs)"
proof -
  obtain df0 where df0: "read_csv fs (original_csv self) = Inr df0"
    using rd by (simp add: read_csv_def Let_def)
  note fr = dropna_read_rows [OF rd df0]
  from miss have "required_columns - set (header f) \<noteq> {}" by auto
  then show ?thesis
    by (simp add: load_and_process_def df0 Let_def fr(2))
qed

lemma traverse_Inl: "traverse f xs = Inl e \<Longrightarrow> \<exists>x \<in> set xs. f x = Inl e"
  by (induction xs) (auto split: sum.splits)

lemma py_add_Inl: "py_add x y = Inl e \<Longrightarrow> e = Raised TypeError []"
  by (cases x; cases y) auto

lemma combined_info_Inl:
  "combined_info df = Inl e \<Longrightarrow> e = Raised TypeError [] \<or> (\<exists>c. e = Raised KeyError [Lit c])"
  by (auto simp: combined_info_def bind_exn_def getitem_def str_add_series_def
      series_add_str_def series_add_series_def
      split: sum.splits option.splits dest!: traverse_Inl py_add_Inl)

lemma select_Inl: "select df cols = Inl e \<Longrightarrow> \<exists>c. e = Raised KeyError [Lit c]"
  by (auto simp: select_def split: sum.splits option.splits dest!: traverse_Inl)

lemma load_and_process_no_value_error:
  assumes rd: "fs (original_csv self) = Inr f"
    and sub: "required_columns \<subseteq> set (header f)"
  shows "load_and_process self fs \<noteq> (Inl (Raised ValueError m), fs')"
proof -
  obtain df0 where df0: "read_csv fs (original_csv self) = Inr df0"
    using rd by (simp add: read_csv_def Let_def)
  note fr = dropna_read_rows [OF rd df0]
  from sub have nomiss: "required_columns - set (columns (dropna df0)) = {}"
    by (simp add: fr(2))
  show ?thesis
    using nomiss
    by (auto simp: load_and_process_def df0 Let_def split: sum.splits
        dest!: combined_info_Inl select_Inl)
qed


section \<open>Runs on the concrete inputs\<close>

lemmas eval_defs = load_and_process_def read_csv_def dropna_def combined_info_def bind_exn_def
  getitem_def str_add_series_def series_add_str_def series_add_series_def setitem_def
  select_def to_csv_def AnimeDataLoader_def required_columns_def pad_def width_def cell_at_def
  no_files_def Let_def

lemma naruto_run:
  "load_and_process (AnimeDataLoader ''in.csv'' ''out.csv'') (no_files(''in.csv'' := Inr naruto_csv))
   = (Inr ''out.csv'',
      (no_files(''in.csv'' := Inr naruto_csv))(''out.csv'' := Inr
        \<lparr>header = [''combined_info''],
         lines = [[Str ''Title: Naruto..Overview: A ninja's journey.Genres : Action, Adventure'']],
         encoding = ''utf-8''\<rparr>))"
  by (simp add: eval_defs naruto_csv_def)

lemma mixed_run:
  "load_and_process (AnimeDataLoader ''in.csv'' ''out.csv'') (no_files(''in.csv'' := Inr mixed_csv))
   = (Inr ''out.csv'',
      (no_files(''in.csv'' := Inr mixed_csv))(''out.csv'' := Inr
        \<lparr>header = [''combined_info''],
         lines = [[Str ''Title: Naruto..Overview: A ninja.Genres : Action''],
                  [Str ''Title: Trigun..Overview: A gunman.Genres : Western'']],
         encoding = ''utf-8''\<rparr>))"
  by (simp add: eval_defs mixed_csv_def)

lemma skipped_run:
  "load_and_process (AnimeDataLoader ''in.csv'' ''out.csv'') (no_files(''in.csv'' := Inr skipped_csv))
   = (Inr ''out.csv'',
      (no_files(''in.csv'' := Inr skipped_csv))(''out.csv'' := Inr
        \<lparr>header = [''combined_info''],
         lines = [[Str ''Title: Naruto..Overview: A ninja.Genres : Action'']],
         encoding = ''utf-8''\<rparr>))"
  by (simp add: eval_defs skipped_csv_def)

lemma shifted_run:
  "load_and_process (AnimeDataLoader ''in.csv'' ''out.csv'') (no_files(''in.csv'' := Inr shifted_csv))
   = (Inr ''out.csv'',
      (no_files(''in.csv'' := Inr shifted_csv))(''out.csv'' := Inr
        \<lparr>header = [''combined_info''],
         lines = [[Str ''Title: Drama..Overview: xGenres : A doctor'']],
         encoding = ''utf-8''\<rparr>))"
  by (simp add: eval_defs shifted_csv_def)

lemma indexed_run:
  "load_and_process (AnimeDataLoader ''in.csv'' ''out.csv'') (no_files(''in.csv'' := Inr indexed_csv))
   = (Inr ''out.csv'',
      (no_files(''in.csv'' := Inr indexed_csv))(''out.csv'' := Inr
        \<lparr>header = [''combined_info''],
         lines = [[Str ''Title: Monster..Overview: A doctor.Genres : Drama''],
                  [Str ''Title: Naruto..Overview: A ninja.Genres : Action'']],
         encoding = ''utf-8''\<rparr>))"
  by (simp add: eval_defs indexed_csv_def)

section \<open>Properties of the data loader\<close>

subsection \<open>The derived field\<close>

text \<open>
  C1. When the input file has the columns \<open>Name\<close>, \<open>Genres\<close> and \<open>sypnopsis\<close>, a run of
  \<open>load_and_process\<close> either raises and leaves the file system as it was, or writes one
  line per surviving input line, in order, and the line holds exactly
  \<open>"Title: " + Name + "..Overview: " + sypnopsis + "Genres : " + Genres\<close> of that row's
  fields, which are strings. The fields of a row are those the parser puts under the
  column names (after the fields of an implicit index, if the file has one).
\<close>

theorem combined_info_exact_concatenation:
  assumes "fs (original_csv self) = Inr f"
    and "required_columns \<subseteq> set (header f)"
  shows "(\<exists>e. load_and_process self fs = (Inl e, fs)) \<or>
         (\<exists>w. load_and_process self fs =
                (Inr (processed_csv self), fs(processed_csv self := Inr w)) \<and>
              list_all2 (\<lambda>l r. \<exists>n g s. field f l ''Name'' = Str n
                    \<and> field f l ''Genres'' = Str g \<and> field f l ''sypnopsis'' = Str s
                    \<and> r = [Str (''Title: '' @ n @ ''..Overview: '' @ s @ ''Genres : '' @ g)])
                (filter (survives f) (lines f)) (lines w))"
proof (cases "load_and_process self fs")
  case (Pair r fs')
  show ?thesis
  proof (cases r)
    case (Inl e)
    with Pair load_and_process_failure [of self fs e fs'] show ?thesis by simp
  next
    case (Inr p)
    with Pair have ok: "load_and_process self fs = (Inr p, fs')" by simp
    from load_and_process_success [OF assms(1) ok] obtain vs where
      p: "p = processed_csv self" and
      fs': "fs' = fs(p := Inr \<lparr>header = [''combined_info''],
                               lines = map (\<lambda>v. [v]) vs, encoding = ''utf-8''\<rparr>)" and
      all: "list_all2 (\<lambda>l v. \<exists>n g s. field f l ''Name'' = Str n
                  \<and> field f l ''Genres'' = Str g \<and> field f l ''sypnopsis'' = Str s
                  \<and> v = Str (''Title: '' @ n @ ''..Overview: '' @ s @ ''Genres : '' @ g))
                (filter (survives f) (lines f)) vs"
      by blast
    from all have "list_all2 (\<lambda>l r. \<exists>n g s. field f l ''Name'' = Str n
                    \<and> field f l ''Genres'' = Str g \<and> field f l ''sypnopsis'' = Str s
                    \<and> r = [Str (''Title: '' @ n @ ''..Overview: '' @ s @ ''Genres : '' @ g)])
                (filter (survives f) (lines f)) (map (\<lambda>v. [v]) vs)"
      by (simp add: list_all2_conv_all_nth)
    with ok p fs' show ?thesis by auto
  qed
qed

theorem combined_info_exact_concatenation_witness:
  "(no_files(''in.csv'' := Inr naruto_csv)) (original_csv (AnimeDataLoader ''in.csv'' ''out.csv''))
     = Inr naruto_csv
   \<and> required_columns \<subseteq> set (header naruto_csv)
   \<and> field naruto_csv [Str ''Naruto'', Str ''Action, Adventure'', Str ''A ninja's journey.'']
       ''Name'' = Str ''Naruto''
   \<and> load_and_process (AnimeDataLoader ''in.csv'' ''out.csv'')
       (no_files(''in.csv'' := Inr naruto_csv))
     = (Inr ''out.csv'',
        (no_files(''in.csv'' := Inr naruto_csv))(''out.csv'' := Inr
          \<lparr>header = [''combined_info''],
           lines = [[Str ''Title: Naruto..Overview: A ninja's journey.Genres : Action, Adventure'']],
           encoding = ''utf-8''\<rparr>))
   \<and> (no_files(''in.csv'' := Inr indexed_csv)) (original_csv (AnimeDataLoader ''in.csv'' ''out.csv''))
     = Inr indexed_csv
   \<and> required_columns \<subseteq> set (header indexed_csv)
   \<and> field indexed_csv [Num 2, Str ''Naruto'', Str ''Action'', Str ''A ninja.''] ''Name''
     = Str ''Naruto''
   \<and> load_and_process (AnimeDataLoader ''in.csv'' ''out.csv'')
       (no_files(''in.csv'' := Inr indexed_csv))
     = (Inr ''out.csv'',
        (no_files(''in.csv'' := Inr indexed_csv))(''out.csv'' := Inr
          \<lparr>header = [''combined_info''],
           lines = [[Str ''Title: Monster..Overview: A doctor.Genres : Drama''],
                    [Str ''Title: Naruto..Overview: A ninja.Genres : Action'']],
           encoding = ''utf-8''\<rparr>))"
proof -
  have h1: "(no_files(''in.csv'' := Inr naruto_csv))
              (original_csv (AnimeDataLoader ''in.csv'' ''out.csv'')) = Inr naruto_csv"
    by (simp add: AnimeDataLoader_def)
  have h2: "required_columns \<subseteq> set (header naruto_csv)"
    by (simp add: required_columns_def naruto_csv_def)
  have h3: "field naruto_csv
       [Str ''Naruto'', Str ''Action, Adventure'', Str ''A ninja's journey.''] ''Name''
       = Str ''Naruto''"
    by (simp add: field_def row_of_def naruto_csv_def pad_def width_def cell_at_def)
  have k1: "(no_files(''in.csv'' := Inr indexed_csv))
              (original_csv (AnimeDataLoader ''in.csv'' ''out.csv'')) = Inr indexed_csv"
    by (simp add: AnimeDataLoader_def)
  have k2: "required_columns \<subseteq> set (header indexed_csv)"
    by (simp add: required_columns_def indexed_csv_def)
  have k3: "field indexed_csv [Num 2, Str ''Naruto'', Str ''Action'', Str ''A ninja.''] ''Name''
     = Str ''Naruto''"
    by (simp add: field_def row_of_def indexed_csv_def pad_def width_def cell_at_def)
  from combined_info_exact_concatenation
      [where fs = "no_files(''in.csv'' := Inr naruto_csv)"
         and self = "AnimeDataLoader ''in.csv'' ''out.csv''" and f = naruto_csv, OF h1 h2]
    combined_info_exact_concatenation
      [where fs = "no_files(''in.csv'' := Inr indexed_csv)"
         and self = "AnimeDataLoader ''in.csv'' ''out.csv''" and f = indexed_csv, OF k1 k2]
    h1 h2 h3 naruto_run k1 k2 k3 indexed_run
  show ?thesis by simp
qed

subsection \<open>Validation of the required columns\<close>

text \<open>
  C2. When the file can be read, the columns left after \<open>dropna\<close> decide: if one of
  \<open>Name\<close>, \<open>Genres\<close>, \<open>sypnopsis\<close> is absent, \<open>load_and_process\<close> raises \<open>ValueError\<close> with the
  message \<open>Missing columns {missing} in CSV file\<close>, where \<open>missing\<close> is exactly the set of
  required columns that are absent, and writes nothing; if all three are present it
  raises no \<open>ValueError\<close> at all.
\<close>

theorem missing_columns_validation:
  assumes "read_csv fs (original_csv self) = Inr df"
  shows "if required_columns \<subseteq> set (columns (dropna df))
         then \<forall>m fs'. load_and_process self fs \<noteq> (Inl (Raised ValueError m), fs')
         else load_and_process self fs =
                (Inl (Raised ValueError
                   [Lit ''Missing columns '',
                    SetRepr {c. c \<in> required_columns \<and> c \<notin> set (columns (dropna df))},
                    Lit '' in CSV file'']), fs)"
proof -
  from assms obtain f where rd: "fs (original_csv self) = Inr f"
    by (cases "fs (original_csv self)") (auto simp: read_csv_def)
  have cols: "columns (dropna df) = header f"
    by (rule dropna_read_rows(2) [OF rd assms])
  have set: "{c. c \<in> required_columns \<and> c \<notin> set (header f)} = required_columns - set (header f)"
    by auto
  show ?thesis
    using load_and_process_no_value_error [where fs = fs and self = self and f = f, OF rd]
      load_and_process_missing [where fs = fs and self = self and f = f, OF rd]
    by (simp add: cols set)
qed

theorem missing_columns_validation_witness:
  "read_csv (no_files(''in.csv'' := Inr partial_csv))
       (original_csv (AnimeDataLoader ''in.csv'' ''out.csv''))
     = Inr \<lparr>columns = [''Name'', ''Score''], rows = [([Num 0], [Str ''Naruto'', Num 8])]\<rparr>
   \<and> load_and_process (AnimeDataLoader ''in.csv'' ''out.csv'')
       (no_files(''in.csv'' := Inr partial_csv))
     = (Inl (Raised ValueError
          [Lit ''Missing columns '', SetRepr {''Genres'', ''sypnopsis''}, Lit '' in CSV file'']),
        no_files(''in.csv'' := Inr partial_csv))"
proof -
  have h: "read_csv (no_files(''in.csv'' := Inr partial_csv))
       (original_csv (AnimeDataLoader ''in.csv'' ''out.csv''))
     = Inr \<lparr>columns = [''Name'', ''Score''], rows = [([Num 0], [Str ''Naruto'', Num 8])]\<rparr>"
    by (simp add: eval_defs partial_csv_def)
  have s: "{c. c \<in> required_columns \<and> c \<noteq> ''Name'' \<and> c \<noteq> ''Score''} = {''Genres'', ''sypnopsis''}"
    by (auto simp: required_columns_def)
  from missing_columns_validation [OF h] h s show ?thesis
    by (simp add: dropna_def required_columns_def)
qed

subsection \<open>Running the loader on its own output\<close>

text \<open>
  C7. After a successful run, a second loader whose source is the path the first run
  returned fails with the missing-column \<open>ValueError\<close>, and the missing set is all of
  \<open>Name\<close>, \<open>Genres\<close>, \<open>sypnopsis\<close>: the processed file has the column \<open>combined_info\<close> only.
\<close>

theorem rerun_on_processed_output_fails:
  assumes "load_and_process self fs = (Inr p, fs')"
  shows "load_and_process (AnimeDataLoader p q) fs' =
           (Inl (Raised ValueError
              [Lit ''Missing columns '', SetRepr {''Name'', ''Genres'', ''sypnopsis''},
               Lit '' in CSV file'']), fs')"
proof -
  from load_and_process_reads [OF assms] obtain f where rd: "fs (original_csv self) = Inr f" ..
  from load_and_process_success [where fs = fs and self = self and f = f, OF rd assms]
  obtain vs where
    fs': "fs' = fs(p := Inr \<lparr>header = [''combined_info''],
                             lines = map (\<lambda>v. [v]) vs, encoding = ''utf-8''\<rparr>)"
    by blast
  let ?w = "\<lparr>header = [''combined_info''], lines = map (\<lambda>v. [v]) vs,
             encoding = ''utf-8''\<rparr>"
  have rd': "fs' (original_csv (AnimeDataLoader p q)) = Inr ?w"
    by (simp add: fs' AnimeDataLoader_def)
  have miss: "\<not> required_columns \<subseteq> set (header ?w)"
    by (simp add: required_columns_def)
  have "required_columns - set (header ?w) = {''Name'', ''Genres'', ''sypnopsis''}"
    by (auto simp: required_columns_def)
  with load_and_process_missing
    [where fs = fs' and self = "AnimeDataLoader p q" and f = ?w, OF rd' miss]
  show ?thesis by simp
qed

theorem rerun_on_processed_output_fails_witness:
  "load_and_process (AnimeDataLoader ''in.csv'' ''out.csv'')
       (no_files(''in.csv'' := Inr naruto_csv))
     = (Inr ''out.csv'',
        (no_files(''in.csv'' := Inr naruto_csv))(''out.csv'' := Inr
          \<lparr>header = [''combined_info''],
           lines = [[Str ''Title: Naruto..Overview: A ninja's journey.Genres : Action, Adventure'']],
           encoding = ''utf-8''\<rparr>))
   \<and> load_and_process (AnimeDataLoader ''out.csv'' ''again.csv'')
       ((no_files(''in.csv'' := Inr naruto_csv))(''out.csv'' := Inr
          \<lparr>header = [''combined_info''],
           lines = [[Str ''Title: Naruto..Overview: A ninja's journey.Genres : Action, Adventure'']],
           encoding = ''utf-8''\<rparr>))
     = (Inl (Raised ValueError
          [Lit ''Missing columns '', SetRepr {''Name'', ''Genres'', ''sypnopsis''},
           Lit '' in CSV file'']),
        (no_files(''in.csv'' := Inr naruto_csv))(''out.csv'' := Inr
          \<lparr>header = [''combined_info''],
           lines = [[Str ''Title: Naruto..Overview: A ninja's journey.Genres : Action, Adventure'']],
           encoding = ''utf-8''\<rparr>))"
  using rerun_on_processed_output_fails [OF naruto_run, of "''again.csv''"] naruto_run
  by simp

subsection \<open>The destination file\<close>

text \<open>
  C8. A successful run returns the destination path given at construction and changes
  the file system at that path only; the file written there has the single column
  \<open>combined_info\<close>, every line of it has exactly one field (no row index), and it is
  written with the encoding \<open>utf-8\<close>.
\<close>

theorem destination_file_shape:
  assumes "load_and_process self fs = (Inr p, fs')"
  shows "p = processed_csv self \<and>
         (\<exists>w. fs' = fs(p := Inr w) \<and> header w = [''combined_info'']
            \<and> encoding w = ''utf-8'' \<and> list_all (\<lambda>l. \<exists>v. l = [v]) (lines w))"
proof -
  from load_and_process_reads [OF assms] obtain f where rd: "fs (original_csv self) = Inr f" ..
  from load_and_process_success [where fs = fs and self = self and f = f, OF rd assms]
  obtain vs where
    p: "p = processed_csv self" and
    fs': "fs' = fs(p := Inr \<lparr>header = [''combined_info''],
                             lines = map (\<lambda>v. [v]) vs, encoding = ''utf-8''\<rparr>)"
    by blast
  have "list_all (\<lambda>l. \<exists>v. l = [v]) (map (\<lambda>v. [v]) vs)"
    by (simp add: list_all_iff)
  with p fs' show ?thesis by auto
qed

theorem destination_file_shape_witness:
  "load_and_process (AnimeDataLoader ''in.csv'' ''out.csv'')
       (no_files(''in.csv'' := Inr mixed_csv))
     = (Inr ''out.csv'',
        (no_files(''in.csv'' := Inr mixed_csv))(''out.csv'' := Inr
          \<lparr>header = [''combined_info''],
           lines = [[Str ''Title: Naruto..Overview: A ninja.Genres : Action''],
                    [Str ''Title: Trigun..Overview: A gunman.Genres : Western'']],
           encoding = ''utf-8''\<rparr>))
   \<and> ''out.csv'' = processed_csv (AnimeDataLoader ''in.csv'' ''out.csv'')"
  using destination_file_shape [OF mixed_run] mixed_run
  by (simp add: AnimeDataLoader_def)

lemma length_filter_eq_iff:
  "length (filter P xs) = length xs \<longleftrightarrow> (\<forall>x \<in> set xs. P x)"
proof (induction xs)
  case Nil
  show ?case by simp
next
  case (Cons x xs)
  have "length (filter P xs) \<noteq> Suc (length xs)"
    using length_filter_le [of P xs] by linarith
  with Cons show ?case by auto
qed

lemma written_lines_derived:
  assumes rd: "fs (original_csv self) = Inr f"
    and ok: "load_and_process self fs = (Inr p, fs')"
  shows "\<exists>w. fs' p = Inr w \<and>
           lines w = map (\<lambda>l. [Str (derived f l)]) (filter (survives f) (lines f))"
proof -
  let ?xs = "filter (survives f) (lines f)"
  from load_and_process_success [where fs = fs and self = self and f = f, OF rd ok]
  obtain vs where
    fs': "fs' = fs(p := Inr \<lparr>header = [''combined_info''],
                             lines = map (\<lambda>v. [v]) vs, encoding = ''utf-8''\<rparr>)" and
    all: "list_all2 (\<lambda>l v. \<exists>n g s. field f l ''Name'' = Str n
                  \<and> field f l ''Genres'' = Str g \<and> field f l ''sypnopsis'' = Str s
                  \<and> v = Str (''Title: '' @ n @ ''..Overview: '' @ s @ ''Genres : '' @ g))
                ?xs vs"
    by blast
  from all have "list_all2 (\<lambda>l v. v = Str (derived f l)) ?xs vs"
    by (rule list_all2_mono) (auto simp: derived_def)
  then have "vs = map (\<lambda>l. Str (derived f l)) ?xs"
    by (induction rule: list_all2_induct) auto
  with fs' show ?thesis by simp
qed

lemma dropped_NaN_in_filled:
  assumes "length l < w" and "k < w"
  shows "NaN \<in> set (drop k (pad w l))"
proof -
  have "drop k (pad w l) = drop k l @ replicate (w - length l - (k - length l)) NaN"
    by (simp add: pad_def)
  moreover have "0 < w - length l - (k - length l)"
    using assms by arith
  ultimately show ?thesis by simp
qed

lemma survives_iff_exact:
  assumes "header f \<noteq> []"
  shows "(\<not> is_bad f l \<and> \<not> has_null f l) \<longleftrightarrow>
         (length l = width (header f) (lines f)
          \<and> NaN \<notin> set (drop (width (header f) (lines f) - length (header f)) l))"
proof -
  let ?w = "width (header f) (lines f)"
  let ?k = "?w - length (header f)"
  have k: "?k < ?w"
    using assms width_ge_header [of "header f" "lines f"] by (cases "header f") auto
  consider "?w < length l" | "length l = ?w" | "length l < ?w" by arith
  then show ?thesis
  proof cases
    case 1
    then show ?thesis by (simp add: is_bad_def)
  next
    case 2
    then show ?thesis by (simp add: is_bad_def has_null_def row_of_def pad_def)
  next
    case 3
    from dropped_NaN_in_filled [OF 3 k] have "has_null f l"
      by (simp add: has_null_def row_of_def)
    with 3 show ?thesis by simp
  qed
qed

subsection \<open>Rows with nulls\<close>

text \<open>
  C3, as amended. The parser expects of every data line the number of fields of the
  header, or of the first data line if that has more; a line with more fields is
  skipped as malformed, a line with fewer is filled with nulls. After a successful run
  the written lines are, one for one and in order, the input lines that are not
  skipped and whose row contains no null, so a row with a null in any column has no
  line in the output; the output has at most as many lines as the input, and exactly
  as many precisely when every input line has exactly the expected number of fields
  and no null among its column fields.
\<close>

theorem row_count_invariant:
  assumes "fs (original_csv self) = Inr f"
    and "load_and_process self fs = (Inr p, fs')"
  shows "\<exists>w. fs' p = Inr w
           \<and> list_all2 (\<lambda>l r. r = [Str (derived f l)])
               (filter (\<lambda>l. \<not> is_bad f l \<and> \<not> has_null f l) (lines f)) (lines w)
           \<and> length (lines w) \<le> length (lines f)
           \<and> (length (lines w) = length (lines f) \<longleftrightarrow>
                (\<forall>l \<in> set (lines f).
                   length l = width (header f) (lines f)
                   \<and> NaN \<notin> set (drop (width (header f) (lines f) - length (header f)) l)))"
proof -
  let ?P = "\<lambda>l. \<not> is_bad f l \<and> \<not> has_null f l"
  have s: "survives f = ?P"
    by (simp add: fun_eq_iff survives_def)
  from load_and_process_success [where fs = fs and self = self and f = f, OF assms]
  have "required_columns \<subseteq> set (header f)" by blast
  then have ne: "header f \<noteq> []"
    by (auto simp: required_columns_def)
  from written_lines_derived [where fs = fs and self = self and f = f, OF assms]
  obtain w where w: "fs' p = Inr w"
    and l: "lines w = map (\<lambda>l. [Str (derived f l)]) (filter ?P (lines f))"
    by (auto simp: s)
  have 1: "list_all2 (\<lambda>l r. r = [Str (derived f l)]) (filter ?P (lines f)) (lines w)"
    by (simp add: l list_all2_conv_all_nth)
  have 2: "length (lines w) \<le> length (lines f)"
    by (simp add: l)
  have "length (lines w) = length (lines f) \<longleftrightarrow> (\<forall>l \<in> set (lines f). ?P l)"
    by (simp add: l length_filter_eq_iff)
  then have 3: "length (lines w) = length (lines f) \<longleftrightarrow>
                (\<forall>l \<in> set (lines f).
                   length l = width (header f) (lines f)
                   \<and> NaN \<notin> set (drop (width (header f) (lines f) - length (header f)) l))"
    by (simp add: survives_iff_exact [OF ne])
  from w 1 2 3 show ?thesis by blast
qed

theorem row_count_invariant_witness:
  "(no_files(''in.csv'' := Inr mixed_csv)) (original_csv (AnimeDataLoader ''in.csv'' ''out.csv''))
     = Inr mixed_csv
   \<and> load_and_process (AnimeDataLoader ''in.csv'' ''out.csv'')
       (no_files(''in.csv'' := Inr mixed_csv))
     = (Inr ''out.csv'',
        (no_files(''in.csv'' := Inr mixed_csv))(''out.csv'' := Inr
          \<lparr>header = [''combined_info''],
           lines = [[Str ''Title: Naruto..Overview: A ninja.Genres : Action''],
                    [Str ''Title: Trigun..Overview: A gunman.Genres : Western'']],
           encoding = ''utf-8''\<rparr>))
   \<and> length (lines mixed_csv) = 5
   \<and> width (header mixed_csv) (lines mixed_csv) = 4
   \<and> NaN \<in> set (lines mixed_csv ! 1)
   \<and> length (lines mixed_csv ! 2) = 5
   \<and> length (lines mixed_csv ! 3) = 3
   \<and> (no_files(''in.csv'' := Inr shifted_csv)) (original_csv (AnimeDataLoader ''in.csv'' ''out.csv''))
     = Inr shifted_csv
   \<and> load_and_process (AnimeDataLoader ''in.csv'' ''out.csv'')
       (no_files(''in.csv'' := Inr shifted_csv))
     = (Inr ''out.csv'',
        (no_files(''in.csv'' := Inr shifted_csv))(''out.csv'' := Inr
          \<lparr>header = [''combined_info''],
           lines = [[Str ''Title: Drama..Overview: xGenres : A doctor'']],
           encoding = ''utf-8''\<rparr>))
   \<and> length (lines shifted_csv) = 2
   \<and> width (header shifted_csv) (lines shifted_csv) = 4
   \<and> length (lines shifted_csv ! 1) = 3"
proof -
  have h: "(no_files(''in.csv'' := Inr mixed_csv))
             (original_csv (AnimeDataLoader ''in.csv'' ''out.csv'')) = Inr mixed_csv"
    by (simp add: AnimeDataLoader_def)
  have n: "length (lines mixed_csv) = 5"
    "width (header mixed_csv) (lines mixed_csv) = 4"
    "NaN \<in> set (lines mixed_csv ! 1)"
    "length (lines mixed_csv ! 2) = 5"
    "length (lines mixed_csv ! 3) = 3"
    by (simp_all add: mixed_csv_def width_def)
  have h': "(no_files(''in.csv'' := Inr shifted_csv))
             (original_csv (AnimeDataLoader ''in.csv'' ''out.csv'')) = Inr shifted_csv"
    by (simp add: AnimeDataLoader_def)
  have n': "length (lines shifted_csv) = 2"
    "width (header shifted_csv) (lines shifted_csv) = 4"
    "length (lines shifted_csv ! 1) = 3"
    by (simp_all add: shifted_csv_def width_def)
  from row_count_invariant
    [where fs = "no_files(''in.csv'' := Inr mixed_csv)"
       and self = "AnimeDataLoader ''in.csv'' ''out.csv''" and f = mixed_csv, OF h mixed_run]
    row_count_invariant
    [where fs = "no_files(''in.csv'' := Inr shifted_csv)"
       and self = "AnimeDataLoader ''in.csv'' ''out.csv''" and f = shifted_csv, OF h' shifted_run]
    h n mixed_run h' n' shifted_run
  show ?thesis by simp
qed

text \<open>
  The claim as first stated, with equality of the counts exactly when no input line
  contains a null, fails on a file without nulls whose second line has a field too
  many: two input lines, neither with a null, and one output line.
\<close>

theorem row_count_equal_iff_no_null_counterexample:
  "load_and_process (AnimeDataLoader ''in.csv'' ''out.csv'')
       (no_files(''in.csv'' := Inr skipped_csv))
     = (Inr ''out.csv'',
        (no_files(''in.csv'' := Inr skipped_csv))(''out.csv'' := Inr
          \<lparr>header = [''combined_info''],
           lines = [[Str ''Title: Naruto..Overview: A ninja.Genres : Action'']],
           encoding = ''utf-8''\<rparr>))
   \<and> length (lines skipped_csv) = 2
   \<and> NaN \<notin> set (lines skipped_csv ! 0)
   \<and> NaN \<notin> set (lines skipped_csv ! 1)
   \<and> \<not> has_null skipped_csv (lines skipped_csv ! 0)
   \<and> \<not> has_null skipped_csv (lines skipped_csv ! 1)"
  using skipped_run
  by (simp add: skipped_csv_def has_null_def row_of_def is_bad_def pad_def width_def)

subsection \<open>Order of the output\<close>

text \<open>
  C10. After a successful run the lines of the output file are the derived values of
  the surviving input lines (not skipped as malformed, and with no null in the row the
  parser makes of them), in the order of the input: the output is the image of the
  filtered input list, so nothing is duplicated or reordered.
\<close>

theorem output_preserves_input_order:
  assumes "fs (original_csv self) = Inr f"
    and "load_and_process self fs = (Inr p, fs')"
  shows "\<exists>w. fs' p = Inr w \<and>
           lines w = map (\<lambda>l. [Str (derived f l)]) (filter (survives f) (lines f))"
  using assms by (rule written_lines_derived)

theorem output_preserves_input_order_witness:
  "(no_files(''in.csv'' := Inr mixed_csv)) (original_csv (AnimeDataLoader ''in.csv'' ''out.csv''))
     = Inr mixed_csv
   \<and> load_and_process (AnimeDataLoader ''in.csv'' ''out.csv'')
       (no_files(''in.csv'' := Inr mixed_csv))
     = (Inr ''out.csv'',
        (no_files(''in.csv'' := Inr mixed_csv))(''out.csv'' := Inr
          \<lparr>header = [''combined_info''],
           lines = [[Str ''Title: Naruto..Overview: A ninja.Genres : Action''],
                    [Str ''Title: Trigun..Overview: A gunman.Genres : Western'']],
           encoding = ''utf-8''\<rparr>))
   \<and> filter (survives mixed_csv) (lines mixed_csv)
     = [[Str ''Naruto'', Num 8, Str ''Action'', Str ''A ninja.''],
        [Str ''Trigun'', Num 8, Str ''Western'', Str ''A gunman.'']]
   \<and> derived mixed_csv [Str ''Trigun'', Num 8, Str ''Western'', Str ''A gunman.'']
     = ''Title: Trigun..Overview: A gunman.Genres : Western''
   \<and> (no_files(''in.csv'' := Inr shifted_csv)) (original_csv (AnimeDataLoader ''in.csv'' ''out.csv''))
     = Inr shifted_csv
   \<and> load_and_process (AnimeDataLoader ''in.csv'' ''out.csv'')
       (no_files(''in.csv'' := Inr shifted_csv))
     = (Inr ''out.csv'',
        (no_files(''in.csv'' := Inr shifted_csv))(''out.csv'' := Inr
          \<lparr>header = [''combined_info''],
           lines = [[Str ''Title: Drama..Overview: xGenres : A doctor'']],
           encoding = ''utf-8''\<rparr>))
   \<and> filter (survives shifted_csv) (lines shifted_csv)
     = [[Str ''Monster'', Str ''Drama'', Str ''A doctor'', Str ''x'']]
   \<and> derived shifted_csv [Str ''Monster'', Str ''Drama'', Str ''A doctor'', Str ''x'']
     = ''Title: Drama..Overview: xGenres : A doctor''"
proof -
  have h: "(no_files(''in.csv'' := Inr mixed_csv))
             (original_csv (AnimeDataLoader ''in.csv'' ''out.csv'')) = Inr mixed_csv"
    by (simp add: AnimeDataLoader_def)
  have f: "filter (survives mixed_csv) (lines mixed_csv)
     = [[Str ''Naruto'', Num 8, Str ''Action'', Str ''A ninja.''],
        [Str ''Trigun'', Num 8, Str ''Western'', Str ''A gunman.'']]"
    by (simp add: mixed_csv_def survives_def has_null_def row_of_def is_bad_def pad_def width_def)
  have d: "derived mixed_csv [Str ''Trigun'', Num 8, Str ''Western'', Str ''A gunman.'']
     = ''Title: Trigun..Overview: A gunman.Genres : Western''"
    by (simp add: mixed_csv_def derived_def field_def row_of_def pad_def width_def cell_at_def)
  have h': "(no_files(''in.csv'' := Inr shifted_csv))
             (original_csv (AnimeDataLoader ''in.csv'' ''out.csv'')) = Inr shifted_csv"
    by (simp add: AnimeDataLoader_def)
  have f': "filter (survives shifted_csv) (lines shifted_csv)
     = [[Str ''Monster'', Str ''Drama'', Str ''A doctor'', Str ''x'']]"
    by (simp add: shifted_csv_def survives_def has_null_def row_of_def is_bad_def pad_def
        width_def)
  have d': "derived shifted_csv [Str ''Monster'', Str ''Drama'', Str ''A doctor'', Str ''x'']
     = ''Title: Drama..Overview: xGenres : A doctor''"
    by (simp add: shifted_csv_def derived_def field_def row_of_def pad_def width_def cell_at_def)
  from output_preserves_input_order
    [where fs = "no_files(''in.csv'' := Inr mixed_csv)"
       and self = "AnimeDataLoader ''in.csv'' ''out.csv''" and f = mixed_csv, OF h mixed_run]
    output_preserves_input_order
    [where fs = "no_files(''in.csv'' := Inr shifted_csv)"
       and self = "AnimeDataLoader ''in.csv'' ''out.csv''" and f = shifted_csv, OF h' shifted_run]
    h f d mixed_run h' f' d' shifted_run
  show ?thesis by simp
qed

section \<open>Properties of the recommender\<close>

lemma join_Cons: "join sep (x # xs) = x @ concat (map (\<lambda>y. sep @ y) xs)"
  by (induction xs arbitrary: x) auto

subsection \<open>The flow of a query\<close>

text \<open>
  C4. When the retriever returns documents for the query, the template formats and the
  model answers, \<open>get_recommendations\<close> makes exactly three calls, in this order: the
  retriever on the query, the template's \<open>format\<close> with \<open>context\<close> (the joined document
  text) and \<open>question\<close> (the query), and the model on the formatted prompt; the model is
  invoked once, and the value returned is the \<open>content\<close> of its response.
\<close>

theorem get_recommendations_flow:
  assumes "retriever self query = Inr docs"
    and "prompt self [(''context'', join newline (map page_content docs)),
                      (''question'', query)] = Inr prompt_input"
    and "groq (llm self) seed prompt_input = Inr result"
  shows "get_recommendations groq self query seed =
           (Inr (content result),
            [RetrieverInvoke query,
             PromptFormat [(''context'', join newline (map page_content docs)),
                           (''question'', query)],
             LLMInvoke (llm self) prompt_input])
         \<and> length (filter is_llm_invoke (snd (get_recommendations groq self query seed))) = 1"
proof -
  have run: "get_recommendations groq self query seed =
           (Inr (content result),
            [RetrieverInvoke query,
             PromptFormat [(''context'', join newline (map page_content docs)),
                           (''question'', query)],
             LLMInvoke (llm self) prompt_input])"
    using assms by (simp add: get_recommendations_def Let_def)
  then show ?thesis by simp
qed

lemmas rec_defs = get_recommendations_def AnimeRecommender_def ChatGroq_def two_docs_def
  other_docs_def plain_prompt_def echo_groq_def strict_groq_def newline_def Let_def

theorem get_recommendations_flow_witness:
  "retriever (AnimeRecommender plain_prompt two_docs ''key'' ''llama-3.1-8b-instant'')
       ''action anime''
     = Inr [\<lparr>page_content = ''doc A''\<rparr>, \<lparr>page_content = ''doc B''\<rparr>]
   \<and> get_recommendations echo_groq
       (AnimeRecommender plain_prompt two_docs ''key'' ''llama-3.1-8b-instant'')
       ''action anime'' 7
     = (Inr (''Context: doc A'' @ [CHR 0x0A] @ ''doc B Question: action anime''),
        [RetrieverInvoke ''action anime'',
         PromptFormat [(''context'', ''doc A'' @ [CHR 0x0A] @ ''doc B''),
                       (''question'', ''action anime'')],
         LLMInvoke \<lparr>model = ''llama-3.1-8b-instant'', api_key = ''key'', temperature = 1 / 10 ^ 8\<rparr>
           (''Context: doc A'' @ [CHR 0x0A] @ ''doc B Question: action anime'')])"
proof -
  let ?self = "AnimeRecommender plain_prompt two_docs ''key'' ''llama-3.1-8b-instant''"
  let ?docs = "[\<lparr>page_content = ''doc A''\<rparr>, \<lparr>page_content = ''doc B''\<rparr>]"
  let ?p = "''Context: doc A'' @ [CHR 0x0A] @ ''doc B Question: action anime''"
  have h1: "retriever ?self ''action anime'' = Inr ?docs"
    by (simp add: rec_defs)
  have h2: "prompt ?self [(''context'', join newline (map page_content ?docs)),
                          (''question'', ''action anime'')] = Inr ?p"
    by (simp add: rec_defs)
  have h3: "echo_groq (llm ?self) 7 ?p = Inr \<lparr>content = ?p\<rparr>"
    by (simp add: rec_defs)
  from get_recommendations_flow [where groq = echo_groq, OF h1 h2 h3] h1
  show ?thesis by (simp add: rec_defs)
qed

subsection \<open>The context string\<close>

text \<open>
  C5. Whatever documents the retriever returns, the \<open>context\<close> that \<open>get_recommendations\<close>
  hands to the template is the documents' text joined by single newlines: the first
  text followed by a newline and the text of each further document (empty for no
  documents). For the documents \<open>doc A\<close>, \<open>doc B\<close> it is \<open>doc A\<close>, a newline, \<open>doc B\<close>.
\<close>

theorem context_is_newline_joined:
  assumes "retriever self query = Inr docs"
  shows "\<exists>context rest.
           snd (get_recommendations groq self query seed) =
             RetrieverInvoke query
               # PromptFormat [(''context'', context), (''question'', query)] # rest
           \<and> context = join newline (map page_content docs)
           \<and> context = (case docs of
                          [] \<Rightarrow> []
                        | d # ds \<Rightarrow>
                            page_content d @ concat (map (\<lambda>x. [CHR 0x0A] @ page_content x) ds))"
proof -
  let ?c = "join newline (map page_content docs)"
  have 1: "\<exists>rest. snd (get_recommendations groq self query seed) =
             RetrieverInvoke query
               # PromptFormat [(''context'', ?c), (''question'', query)] # rest"
    using assms by (simp add: get_recommendations_def Let_def split: sum.splits)
  have 2: "?c = (case docs of
                   [] \<Rightarrow> []
                 | d # ds \<Rightarrow>
                     page_content d @ concat (map (\<lambda>x. [CHR 0x0A] @ page_content x) ds))"
    by (cases docs) (simp_all add: join_Cons newline_def comp_def)
  from 1 2 show ?thesis by blast
qed

theorem context_is_newline_joined_witness:
  "retriever (AnimeRecommender plain_prompt two_docs ''key'' ''llama-3.1-8b-instant'')
       ''action anime''
     = Inr [\<lparr>page_content = ''doc A''\<rparr>, \<lparr>page_content = ''doc B''\<rparr>]
   \<and> join newline (map page_content [\<lparr>page_content = ''doc A''\<rparr>, \<lparr>page_content = ''doc B''\<rparr>])
     = ''doc A'' @ [CHR 0x0A] @ ''doc B''
   \<and> snd (get_recommendations echo_groq
       (AnimeRecommender plain_prompt two_docs ''key'' ''llama-3.1-8b-instant'')
       ''action anime'' 0) ! 1
     = PromptFormat [(''context'', ''doc A'' @ [CHR 0x0A] @ ''doc B''),
                     (''question'', ''action anime'')]"
proof -
  let ?self = "AnimeRecommender plain_prompt two_docs ''key'' ''llama-3.1-8b-instant''"
  have h1: "retriever ?self ''action anime''
     = Inr [\<lparr>page_content = ''doc A''\<rparr>, \<lparr>page_content = ''doc B''\<rparr>]"
    by (simp add: rec_defs)
  from context_is_newline_joined [where groq = echo_groq and seed = 0, OF h1] h1
  show ?thesis by (simp add: rec_defs)
qed

subsection \<open>Temperature zero\<close>




section \<open>Properties of the pipeline driver\<close>

lemma naruto_pipeline_load:
  "load_and_process
       (AnimeDataLoader (''/app'' @ ''/data/anime_with_synopsis.csv'')
          (''/app'' @ ''/data/anime_updated.csv''))
       (no_files(''/app/data/anime_with_synopsis.csv'' := Inr naruto_csv))
   = (Inr ''/app/data/anime_updated.csv'',
      (no_files(''/app/data/anime_with_synopsis.csv'' := Inr naruto_csv))
        (''/app/data/anime_updated.csv'' := Inr
          \<lparr>header = [''combined_info''],
           lines = [[Str ''Title: Naruto..Overview: A ninja's journey.Genres : Action, Adventure'']],
           encoding = ''utf-8''\<rparr>))"
  by (simp add: eval_defs naruto_csv_def)

lemma partial_pipeline_load:
  "load_and_process
       (AnimeDataLoader (''/app'' @ ''/data/anime_with_synopsis.csv'')
          (''/app'' @ ''/data/anime_updated.csv''))
       (no_files(''/app/data/anime_with_synopsis.csv'' := Inr partial_csv))
   = (Inl (Raised ValueError
        [Lit ''Missing columns '', SetRepr {''Genres'', ''sypnopsis''}, Lit '' in CSV file'']),
      no_files(''/app/data/anime_with_synopsis.csv'' := Inr partial_csv))"
proof -
  have "{''Name'', ''Genres'', ''sypnopsis''} - {''Name'', ''Score''} = {''Genres'', ''sypnopsis''}"
    by auto
  then show ?thesis
    by (simp add: eval_defs partial_csv_def)
qed

lemma is_Exception_iff:
  "is_Exception e \<longleftrightarrow>
   \<not> (\<exists>m. e = Raised KeyboardInterrupt m \<or> e = Raised SystemExit m)"
proof (cases e)
  case (Raised c m)
  then show ?thesis by (cases c) auto
next
  case (CustomException m c)
  then show ?thesis by simp
qed

lemma main_after_failure:
  assumes "main_try project_root build fs entries = (Inl e, fs', entries')"
  shows "main project_root build fs entries =
         (if (\<exists>m. e = Raised KeyboardInterrupt m \<or> e = Raised SystemExit m)
          then (Inl e, fs', entries')
          else (Inl (CustomException [Lit ''Error during pipeline initialization''] e), fs',
                entries' @ [Lit ''failed to execute pipeline '' # str_exn e]))"
  using assms is_Exception_iff [of e] by (simp add: main_def)

subsection \<open>Failures of the run\<close>

text \<open>
  C6, as amended. An exception raised by data loading or by vector-store building
  that is an instance of Python's \<open>Exception\<close> class, that is, every exception but
  \<open>KeyboardInterrupt\<close> and \<open>SystemExit\<close>, is caught by the driver: it logs
  \<open>failed to execute pipeline\<close> with the exception's text, raises \<open>CustomException\<close>
  with the message \<open>Error during pipeline initialization\<close> and the original exception as
  its cause, and the run ends there. A \<open>KeyboardInterrupt\<close> or \<open>SystemExit\<close> leaves the
  driver as it is, unwrapped, with no failure entry in the log. In both cases nothing
  is retried and after a failed load the builder is not run; the driver returns
  normally only when both steps succeeded.
\<close>

theorem main_wraps_exceptions:
  "(load_and_process
      (AnimeDataLoader (project_root @ ''/data/anime_with_synopsis.csv'')
         (project_root @ ''/data/anime_updated.csv'')) fs = (Inl e, fs1)
    \<longrightarrow> main project_root build fs entries =
          (if (\<exists>m. e = Raised KeyboardInterrupt m \<or> e = Raised SystemExit m)
           then (Inl e, fs1, entries @ [[Lit ''Starting to build pipeline'']])
           else (Inl (CustomException [Lit ''Error during pipeline initialization''] e), fs1,
                 entries @ [[Lit ''Starting to build pipeline''],
                            Lit ''failed to execute pipeline '' # str_exn e])))
   \<and> (load_and_process
        (AnimeDataLoader (project_root @ ''/data/anime_with_synopsis.csv'')
           (project_root @ ''/data/anime_updated.csv'')) fs = (Inr p, fs1)
        \<and> build p fs1 = (Inl e, fs2)
      \<longrightarrow> main project_root build fs entries =
            (if (\<exists>m. e = Raised KeyboardInterrupt m \<or> e = Raised SystemExit m)
             then (Inl e, fs2, entries @ [[Lit ''Starting to build pipeline''],
                                          [Lit ''Data loaded and processed successfully'']])
             else (Inl (CustomException [Lit ''Error during pipeline initialization''] e), fs2,
                   entries @ [[Lit ''Starting to build pipeline''],
                              [Lit ''Data loaded and processed successfully''],
                              Lit ''failed to execute pipeline '' # str_exn e])))
   \<and> (main project_root build fs entries = (Inr u, fs3, entries3)
      \<longrightarrow> (\<exists>q fs'. load_and_process
                  (AnimeDataLoader (project_root @ ''/data/anime_with_synopsis.csv'')
                     (project_root @ ''/data/anime_updated.csv'')) fs = (Inr q, fs')
                \<and> build q fs' = (Inr (), fs3)))"
proof (intro conjI impI)
  assume "load_and_process
            (AnimeDataLoader (project_root @ ''/data/anime_with_synopsis.csv'')
               (project_root @ ''/data/anime_updated.csv'')) fs = (Inl e, fs1)"
  then have "main_try project_root build fs entries =
      (Inl e, fs1, entries @ [[Lit ''Starting to build pipeline'']])"
    by (simp add: main_try_def Let_def)
  from main_after_failure [OF this]
  show "main project_root build fs entries =
          (if (\<exists>m. e = Raised KeyboardInterrupt m \<or> e = Raised SystemExit m)
           then (Inl e, fs1, entries @ [[Lit ''Starting to build pipeline'']])
           else (Inl (CustomException [Lit ''Error during pipeline initialization''] e), fs1,
                 entries @ [[Lit ''Starting to build pipeline''],
                            Lit ''failed to execute pipeline '' # str_exn e]))"
    by simp
next
  assume "load_and_process
            (AnimeDataLoader (project_root @ ''/data/anime_with_synopsis.csv'')
               (project_root @ ''/data/anime_updated.csv'')) fs = (Inr p, fs1)
          \<and> build p fs1 = (Inl e, fs2)"
  then have "main_try project_root build fs entries =
      (Inl e, fs2, entries @ [[Lit ''Starting to build pipeline''],
                              [Lit ''Data loaded and processed successfully'']])"
    by (simp add: main_try_def Let_def)
  from main_after_failure [OF this]
  show "main project_root build fs entries =
            (if (\<exists>m. e = Raised KeyboardInterrupt m \<or> e = Raised SystemExit m)
             then (Inl e, fs2, entries @ [[Lit ''Starting to build pipeline''],
                                          [Lit ''Data loaded and processed successfully'']])
             else (Inl (CustomException [Lit ''Error during pipeline initialization''] e), fs2,
                   entries @ [[Lit ''Starting to build pipeline''],
                              [Lit ''Data loaded and processed successfully''],
                              Lit ''failed to execute pipeline '' # str_exn e]))"
    by simp
next
  assume m: "main project_root build fs entries = (Inr u, fs3, entries3)"
  let ?load = "load_and_process
                  (AnimeDataLoader (project_root @ ''/data/anime_with_synopsis.csv'')
                     (project_root @ ''/data/anime_updated.csv'')) fs"
  from m have "\<exists>lg. main_try project_root build fs entries = (Inr u, fs3, lg)"
    by (auto simp: main_def split: prod.splits sum.splits if_splits)
  then show "\<exists>q fs'. ?load = (Inr q, fs') \<and> build q fs' = (Inr (), fs3)"
    by (auto simp: main_try_def Let_def split: prod.splits sum.splits)
qed

theorem main_wraps_exceptions_witness:
  "main ''/app'' failing_build
        (no_files(''/app/data/anime_with_synopsis.csv'' := Inr partial_csv)) []
     = (Inl (CustomException [Lit ''Error during pipeline initialization'']
          (Raised ValueError
             [Lit ''Missing columns '', SetRepr {''Genres'', ''sypnopsis''},
              Lit '' in CSV file''])),
        no_files(''/app/data/anime_with_synopsis.csv'' := Inr partial_csv),
        [[Lit ''Starting to build pipeline''],
         [Lit ''failed to execute pipeline '', Lit ''Missing columns '',
          SetRepr {''Genres'', ''sypnopsis''}, Lit '' in CSV file'']])
   \<and> fst (main ''/app'' failing_build
        (no_files(''/app/data/anime_with_synopsis.csv'' := Inr naruto_csv)) [])
     = Inl (CustomException [Lit ''Error during pipeline initialization'']
          (Raised RuntimeError [Lit ''index build failed'']))
   \<and> snd (snd (main ''/app'' failing_build
        (no_files(''/app/data/anime_with_synopsis.csv'' := Inr naruto_csv)) []))
     = [[Lit ''Starting to build pipeline''],
        [Lit ''Data loaded and processed successfully''],
        [Lit ''failed to execute pipeline '', Lit ''index build failed'']]
   \<and> fst (main ''/app'' exiting_build
        (no_files(''/app/data/anime_with_synopsis.csv'' := Inr naruto_csv)) [])
     = Inl (Raised SystemExit [Lit ''1''])
   \<and> snd (snd (main ''/app'' exiting_build
        (no_files(''/app/data/anime_with_synopsis.csv'' := Inr naruto_csv)) []))
     = [[Lit ''Starting to build pipeline''],
        [Lit ''Data loaded and processed successfully'']]"
proof -
  let ?e = "Raised ValueError
        [Lit ''Missing columns '', SetRepr {''Genres'', ''sypnopsis''}, Lit '' in CSV file'']"
  let ?r = "Raised RuntimeError [Lit ''index build failed'']"
  let ?x = "Raised SystemExit [Lit ''1'']"
  let ?out = "(no_files(''/app/data/anime_with_synopsis.csv'' := Inr naruto_csv))
        (''/app/data/anime_updated.csv'' := Inr
          \<lparr>header = [''combined_info''],
           lines = [[Str ''Title: Naruto..Overview: A ninja's journey.Genres : Action, Adventure'']],
           encoding = ''utf-8''\<rparr>)"
  have b: "failing_build ''/app/data/anime_updated.csv'' ?out = (Inl ?r, ?out)"
    by (simp add: failing_build_def)
  have c: "exiting_build ''/app/data/anime_updated.csv'' ?out = (Inl ?x, ?out)"
    by (simp add: exiting_build_def)
  from main_wraps_exceptions
    [where e = ?e and project_root = "''/app''" and build = failing_build and entries = "[]"
       and fs = "no_files(''/app/data/anime_with_synopsis.csv'' := Inr partial_csv)"
       and ?fs1.0 = "no_files(''/app/data/anime_with_synopsis.csv'' := Inr partial_csv)"]
    partial_pipeline_load
  have 1: "main ''/app'' failing_build
        (no_files(''/app/data/anime_with_synopsis.csv'' := Inr partial_csv)) []
     = (Inl (CustomException [Lit ''Error during pipeline initialization''] ?e),
        no_files(''/app/data/anime_with_synopsis.csv'' := Inr partial_csv),
        [[Lit ''Starting to build pipeline''], Lit ''failed to execute pipeline '' # str_exn ?e])"
    by simp
  from main_wraps_exceptions
    [where e = ?r and project_root = "''/app''" and build = failing_build and entries = "[]"
       and fs = "no_files(''/app/data/anime_with_synopsis.csv'' := Inr naruto_csv)"
       and p = "''/app/data/anime_updated.csv''" and ?fs1.0 = ?out and ?fs2.0 = ?out]
    naruto_pipeline_load b
  have 2: "main ''/app'' failing_build
        (no_files(''/app/data/anime_with_synopsis.csv'' := Inr naruto_csv)) []
     = (Inl (CustomException [Lit ''Error during pipeline initialization''] ?r), ?out,
        [[Lit ''Starting to build pipeline''],
         [Lit ''Data loaded and processed successfully''],
         Lit ''failed to execute pipeline '' # str_exn ?r])"
    by simp
  from main_wraps_exceptions
    [where e = ?x and project_root = "''/app''" and build = exiting_build and entries = "[]"
       and fs = "no_files(''/app/data/anime_with_synopsis.csv'' := Inr naruto_csv)"
       and p = "''/app/data/anime_updated.csv''" and ?fs1.0 = ?out and ?fs2.0 = ?out]
    naruto_pipeline_load c
  have 3: "main ''/app'' exiting_build
        (no_files(''/app/data/anime_with_synopsis.csv'' := Inr naruto_csv)) []
     = (Inl ?x, ?out,
        [[Lit ''Starting to build pipeline''],
         [Lit ''Data loaded and processed successfully'']])"
    by simp
  from 1 2 3 show ?thesis by simp
qed

text \<open>
  The claim as first stated, that no exception escapes the driver unwrapped, fails for
  an exception outside the \<open>Exception\<close> class: a \<open>KeyboardInterrupt\<close> raised while the
  vector store is built leaves \<open>main\<close> as it is, unwrapped and without the failure
  entry in the log.
\<close>

theorem main_wraps_every_exception_counterexample:
  "main ''/app'' interrupted_build
        (no_files(''/app/data/anime_with_synopsis.csv'' := Inr naruto_csv)) []
     = (Inl (Raised KeyboardInterrupt []),
        (no_files(''/app/data/anime_with_synopsis.csv'' := Inr naruto_csv))
          (''/app/data/anime_updated.csv'' := Inr
            \<lparr>header = [''combined_info''],
             lines = [[Str ''Title: Naruto..Overview: A ninja's journey.Genres : Action, Adventure'']],
             encoding = ''utf-8''\<rparr>),
        [[Lit ''Starting to build pipeline''],
         [Lit ''Data loaded and processed successfully'']])"
  using naruto_pipeline_load
  by (simp add: main_def main_try_def interrupted_build_def Let_def)

end
